theory Spec2Isabelle
  imports Complex_Main "HOL-Library.Word"
begin

section \<open>Bayesian A/B distributions: \<^verbatim>\<open>bayesian/dists.py\<close>\<close>

text \<open>
  The module defines an abstract class \<^verbatim>\<open>BayesABDist\<close> with the static methods
  \<^verbatim>\<open>posterior\<close>, \<^verbatim>\<open>moments\<close>, \<^verbatim>\<open>gq\<close> and the class method \<^verbatim>\<open>risk\<close>, and
  the two families \<^verbatim>\<open>Beta\<close> and \<^verbatim>\<open>Norm\<close>.

  Numbers. A Python float is read as a real number, or as one of the three special
  values of the floating point format: rounding, overflow to \<^verbatim>\<open>inf\<close> and the sign of
  zero are not modelled (every zero is \<^verbatim>\<open>+0.0\<close>). numpy's arithmetic raises nothing:
  a division by zero gives \<^verbatim>\<open>inf\<close>, \<^verbatim>\<open>-inf\<close> or \<^verbatim>\<open>nan\<close>, the logarithm of zero
  \<^verbatim>\<open>-inf\<close>, the logarithm and the square root of a negative number \<^verbatim>\<open>nan\<close>, and
  the special values follow the rules of the format (\<^verbatim>\<open>1 / inf\<close> is \<^verbatim>\<open>0.0\<close>,
  \<^verbatim>\<open>0 * inf\<close> is \<^verbatim>\<open>nan\<close>). A division between two plain Python numbers raises
  ZeroDivisionError instead. The parameters \<^verbatim>\<open>par1\<close>, \<^verbatim>\<open>par2\<close> are taken in the
  scalar case of the docstrings, Python floats; \<^verbatim>\<open>n\<close> is a Python int or float.
  The entries of \<^verbatim>\<open>prior\<close> and \<^verbatim>\<open>data\<close> of \<^verbatim>\<open>Norm.posterior\<close> are Python floats or
  Python ints in the range of int64, the type numpy gives an int: \<^verbatim>\<open>np.power\<close> of an
  int is an int64 and wraps around.
\<close>

subsection \<open>Exceptions and floats\<close>

datatype error = IndexError | ZeroDivisionError | ValueError

datatype npfloat = Fin real | PInf | MInf | NaN

datatype pynum = PyInt "64 word" | PyFloat real

fun and_then :: "error + 'a \<Rightarrow> ('a \<Rightarrow> error + 'b) \<Rightarrow> error + 'b" where
  "and_then (Inl e) f = Inl e"
| "and_then (Inr x) f = f x"

text \<open>\<^verbatim>\<open>xs[i]\<close> for a constant index \<open>i \<ge> 0\<close> on a tuple or list.\<close>

definition item :: "'a list \<Rightarrow> nat \<Rightarrow> error + 'a" where
  "item xs i = (if i < length xs then Inr (xs ! i) else Inl IndexError)"

text \<open>The infinity of the sign of \<open>s\<close>, \<^verbatim>\<open>nan\<close> at sign zero; the sign of a float.\<close>

definition inf_of :: "real \<Rightarrow> npfloat" where
  "inf_of s = (if 0 < s then PInf else if s < 0 then MInf else NaN)"

fun fsign :: "npfloat \<Rightarrow> real" where
  "fsign (Fin x) = sgn x"
| "fsign PInf = 1"
| "fsign MInf = - 1"
| "fsign NaN = 0"

fun fneg :: "npfloat \<Rightarrow> npfloat" where
  "fneg (Fin x) = Fin (- x)"
| "fneg PInf = MInf"
| "fneg MInf = PInf"
| "fneg NaN = NaN"

fun fadd :: "npfloat \<Rightarrow> npfloat \<Rightarrow> npfloat" where
  "fadd (Fin x) (Fin y) = Fin (x + y)"
| "fadd NaN b = NaN"
| "fadd a NaN = NaN"
| "fadd (Fin x) b = b"
| "fadd a (Fin y) = a"
| "fadd a b = (if a = b then a else NaN)"

definition fsub :: "npfloat \<Rightarrow> npfloat \<Rightarrow> npfloat" where
  "fsub a b = fadd a (fneg b)"

fun fmul :: "npfloat \<Rightarrow> npfloat \<Rightarrow> npfloat" where
  "fmul (Fin x) (Fin y) = Fin (x * y)"
| "fmul NaN b = NaN"
| "fmul a NaN = NaN"
| "fmul a b = inf_of (fsign a * fsign b)"

text \<open>
  Division with a numpy operand: no exception. A finite number over zero is an infinity
  of its sign, zero over zero is \<^verbatim>\<open>nan\<close>, a finite number over an infinity is zero.
\<close>

fun fdiv :: "npfloat \<Rightarrow> npfloat \<Rightarrow> npfloat" where
  "fdiv (Fin x) (Fin y) = (if y = 0 then inf_of x else Fin (x / y))"
| "fdiv NaN b = NaN"
| "fdiv a NaN = NaN"
| "fdiv (Fin x) b = Fin 0"
| "fdiv a (Fin y) = (if y < 0 then fneg a else a)"
| "fdiv a b = NaN"

text \<open>\<^verbatim>\<open>np.power(x, 2)\<close>, \<^verbatim>\<open>np.sqrt\<close>, \<^verbatim>\<open>np.log\<close> of a float.\<close>

fun np_power2 :: "npfloat \<Rightarrow> npfloat" where
  "np_power2 (Fin x) = Fin (x ^ 2)"
| "np_power2 NaN = NaN"
| "np_power2 a = PInf"

fun np_sqrt :: "npfloat \<Rightarrow> npfloat" where
  "np_sqrt (Fin x) = (if x < 0 then NaN else Fin (sqrt x))"
| "np_sqrt PInf = PInf"
| "np_sqrt a = NaN"

fun np_log :: "npfloat \<Rightarrow> npfloat" where
  "np_log (Fin x) = (if x < 0 then NaN else if x = 0 then MInf else Fin (ln x))"
| "np_log PInf = PInf"
| "np_log a = NaN"

text \<open>
  An entry of \<^verbatim>\<open>prior\<close> or \<^verbatim>\<open>data\<close> as a float, and \<^verbatim>\<open>np.power(x, 2)\<close> of an
  entry: the square of an int is computed in int64 and wraps around, and becomes a float
  in the division that follows.
\<close>

fun pyval :: "pynum \<Rightarrow> real" where
  "pyval (PyInt k) = real_of_int (sint k)"
| "pyval (PyFloat r) = r"

fun np_power2_item :: "pynum \<Rightarrow> npfloat" where
  "np_power2_item (PyInt k) = Fin (real_of_int (sint (k * k)))"
| "np_power2_item (PyFloat r) = Fin (r ^ 2)"

text \<open>Division of two Python floats.\<close>

definition py_div :: "real \<Rightarrow> real \<Rightarrow> error + real" where
  "py_div x y = (if y = 0 then Inl ZeroDivisionError else Inr (x / y))"

text \<open>\<^verbatim>\<open>int(n)\<close> of a finite number: truncation towards zero.\<close>

definition py_int :: "real \<Rightarrow> int" where
  "py_int n = (if 0 \<le> n then \<lfloor>n\<rfloor> else \<lceil>n\<rceil>)"

text \<open>The builtin \<^verbatim>\<open>sum\<close> over an array: from 0, left to right.\<close>

definition py_sum :: "npfloat list \<Rightarrow> npfloat" where
  "py_sum xs = foldl fadd (Fin 0) xs"

text \<open>
  The product of two one-dimensional arrays: elementwise on equal lengths, an array of
  length one is broadcast, any other pair of lengths raises ValueError.
\<close>

definition np_mul :: "npfloat list \<Rightarrow> npfloat list \<Rightarrow> error + npfloat list" where
  "np_mul xs ys =
     (if length xs = length ys then Inr (map2 fmul xs ys)
      else if length xs = 1 then Inr (map (fmul (hd xs)) ys)
      else if length ys = 1 then Inr (map (\<lambda>x. fmul x (hd ys)) xs)
      else Inl ValueError)"

subsection \<open>The numerical library\<close>

text \<open>
  The functions the module imports from scipy and from the module \<^verbatim>\<open>orthogonal\<close>
  are parameters of the model: \<^verbatim>\<open>digamma\<close>, \<^verbatim>\<open>polygamma\<close>,
  \<^verbatim>\<open>roots_hermitenorm(n, True)\<close> (nodes, weights and total weight),
  \<^verbatim>\<open>roots_sh_jacobi(n, p, q, False)\<close> (nodes and weights), and for each of the
  distributions \<^verbatim>\<open>beta\<close> and \<^verbatim>\<open>norm\<close> its \<^verbatim>\<open>cdf(x, par1, par2)\<close> and
  \<^verbatim>\<open>mean(par1, par2)\<close>. The two root finders may raise.
\<close>

record rv_continuous =
  cdf :: "real \<Rightarrow> real \<Rightarrow> real \<Rightarrow> real"
  mean :: "real \<Rightarrow> real \<Rightarrow> real"

record numlib =
  digamma :: "real \<Rightarrow> real"
  polygamma :: "nat \<Rightarrow> real \<Rightarrow> real"
  roots_hermitenorm :: "int \<Rightarrow> error + real list \<times> real list \<times> real"
  roots_sh_jacobi :: "int \<Rightarrow> real \<Rightarrow> real \<Rightarrow> error + real list \<times> real list"
  beta_dist :: rv_continuous
  norm_dist :: rv_continuous

definition EPSILON :: real where
  "EPSILON = 1 / 10000"

subsection \<open>\<^verbatim>\<open>Beta\<close>\<close>

definition Beta_posterior :: "real list \<Rightarrow> real list \<Rightarrow> error + real \<times> real" where
  "Beta_posterior prior data =
     and_then (item prior 0) (\<lambda>p0. and_then (item data 0) (\<lambda>d0.
     and_then (item prior 1) (\<lambda>p1. and_then (item data 1) (\<lambda>d1.
       let a = p0 + d0; b = p1 + d1 - d0 in Inr (a, b)))))"


definition Beta_gq :: "numlib \<Rightarrow> real \<Rightarrow> real \<Rightarrow> real \<Rightarrow> error + real list \<times> npfloat list" where
  "Beta_gq lib n par1 par2 =
     and_then (roots_sh_jacobi lib (py_int n) (par1 + par2 - 1) par1) (\<lambda>(x, w).
       Inr (x, map Fin w))"

subsection \<open>\<^verbatim>\<open>Norm\<close>\<close>

definition Norm_posterior :: "pynum list \<Rightarrow> pynum list \<Rightarrow> error + npfloat \<times> npfloat" where
  "Norm_posterior prior data =
     and_then (item prior 2) (\<lambda>p2. and_then (item prior 1) (\<lambda>p1.
     and_then (item data 2) (\<lambda>d2. and_then (item data 1) (\<lambda>d1.
     and_then (item prior 0) (\<lambda>p0. and_then (item data 0) (\<lambda>d0.
       let inv_var_0 = fdiv (Fin (pyval p2)) (np_power2_item p1);
           inv_var_d = fdiv (Fin (pyval d2)) (np_power2_item d1);
           var = fdiv (Fin 1) (fadd inv_var_0 inv_var_d);
           loc = fmul var (fadd (fmul inv_var_0 (Fin (pyval p0))) (fmul inv_var_d (Fin (pyval d0))));
           scale = np_sqrt var
       in Inr (loc, scale)))))))"

text \<open>
  \<^verbatim>\<open>moments\<close> may call \<^verbatim>\<open>warn\<close>: the model returns the messages of the warnings
  issued, then the result. A warning is issued before the moments are computed, so it
  is there also when the computation raises afterwards.
\<close>

definition negative_warning :: string where
  "negative_warning =
     ''probability of being negative is higher than 0.0001. log approximation is in-exact''"

definition Norm_moments ::
  "numlib \<Rightarrow> real \<Rightarrow> real \<Rightarrow> bool \<Rightarrow> string list \<times> (error + npfloat \<times> npfloat)" where
  "Norm_moments lib par1 par2 log_flag =
     (if log_flag then
        (if cdf (norm_dist lib) 0 par1 par2 > EPSILON then [negative_warning] else [],
         let mean = np_log (Fin par1) in
         and_then (py_div par2 par1) (\<lambda>q.
           let var = np_power2 (Fin q) in Inr (mean, var)))
      else
        ([], let mean = Fin par1; var = np_power2 (Fin par2) in Inr (mean, var)))"

definition Norm_gq :: "numlib \<Rightarrow> real \<Rightarrow> real \<Rightarrow> real \<Rightarrow> error + real list \<times> npfloat list" where
  "Norm_gq lib n par1 par2 =
     and_then (roots_hermitenorm lib (py_int n)) (\<lambda>(x, w, m).
       let x' = map (\<lambda>t. par2 * t + par1) x;
           w' = map (\<lambda>t. fdiv (Fin t) (Fin m)) w
       in Inr (x', w'))"

subsection \<open>\<^verbatim>\<open>BayesABDist.risk\<close>\<close>

text \<open>
  The class method reads \<^verbatim>\<open>cls.gq\<close> and \<^verbatim>\<open>cls.dist\<close>: they are the first two
  arguments of the model. \<^verbatim>\<open>cls.dist.mean\<close> is applied to the pairs of first and of
  second parameters and gives the array of the two means; the result is the array of
  two numbers \<^verbatim>\<open>gq - mean\<close>, here a pair.
\<close>

definition risk ::
  "(real \<Rightarrow> real \<Rightarrow> real \<Rightarrow> error + real list \<times> npfloat list) \<Rightarrow> rv_continuous \<Rightarrow>
   real \<Rightarrow> real \<Rightarrow> real \<Rightarrow> real \<Rightarrow> real \<Rightarrow> error + npfloat \<times> npfloat" where
  "risk gq d a_par1 a_par2 b_par1 b_par2 n =
     and_then (gq n a_par1 a_par2) (\<lambda>(nodes_a, weights_a).
     and_then (gq n b_par1 b_par2) (\<lambda>(nodes_b, weights_b).
     and_then (np_mul (map (\<lambda>x. Fin (x * cdf d x b_par1 b_par2)) nodes_a) weights_a) (\<lambda>ta.
     and_then (np_mul (map (\<lambda>x. Fin (x * cdf d x a_par1 a_par2)) nodes_b) weights_b) (\<lambda>tb.
       let gq_est = fadd (py_sum ta) (py_sum tb)
       in Inr (fsub gq_est (Fin (mean d a_par1 a_par2)),
               fsub gq_est (Fin (mean d b_par1 b_par2)))))))"

definition Beta_risk ::
  "numlib \<Rightarrow> real \<Rightarrow> real \<Rightarrow> real \<Rightarrow> real \<Rightarrow> real \<Rightarrow> error + npfloat \<times> npfloat" where
  "Beta_risk lib = risk (Beta_gq lib) (beta_dist lib)"

definition Norm_risk ::
  "numlib \<Rightarrow> real \<Rightarrow> real \<Rightarrow> real \<Rightarrow> real \<Rightarrow> real \<Rightarrow> error + npfloat \<times> npfloat" where
  "Norm_risk lib = risk (Norm_gq lib) (norm_dist lib)"

subsection \<open>A small library for concrete runs\<close>

text \<open>
  To run the model on concrete inputs the parameters need values. In \<open>small_lib\<close> the
  root finders know the rules of the lowest orders and raise ValueError at any other
  order: the Gauss-Hermite rules with one and two points, for the weight
  \<open>exp (- x\<^sup>2 / 2)\<close> of total mass \<open>sqrt (2 * pi)\<close>, and the one-point shifted
  Jacobi rule for the weight \<open>(1 - x) ^ (p - q) * x ^ (q - 1)\<close> on \<open>[0, 1]\<close>, whose
  node is the mean \<open>q / (p + 1)\<close> of the weight and whose weight is its total mass,
  \<open>(p - q)! * (q - 1)! / p!\<close> at integer exponents (the rule is not normalised, as
  scipy's is not). The means are those of the two distributions. The other functions
  are simple stand-ins: the distribution function of the uniform distribution on
  \<open>[0, 1]\<close> for \<^verbatim>\<open>beta.cdf\<close>, a clipped linear ramp through \<open>1/2\<close> at the location
  for \<^verbatim>\<open>norm.cdf\<close>, and the leading terms of their expansions for \<^verbatim>\<open>digamma\<close> and
  \<^verbatim>\<open>polygamma\<close>.
\<close>

definition small_hermitenorm :: "int \<Rightarrow> error + real list \<times> real list \<times> real" where
  "small_hermitenorm k =
     (if k = 1 then Inr ([0], [sqrt (2 * pi)], sqrt (2 * pi))
      else if k = 2 then Inr ([- 1, 1], [sqrt (2 * pi) / 2, sqrt (2 * pi) / 2], sqrt (2 * pi))
      else Inl ValueError)"

definition small_sh_jacobi :: "int \<Rightarrow> real \<Rightarrow> real \<Rightarrow> error + real list \<times> real list" where
  "small_sh_jacobi k p q =
     (if k = 1 \<and> - 1 < p - q \<and> 0 < q
      then Inr ([q / (p + 1)],
                [fact (nat \<lfloor>p - q\<rfloor>) * fact (nat \<lfloor>q\<rfloor> - 1) / fact (nat \<lfloor>p\<rfloor>)])
      else Inl ValueError)"

definition small_lib :: numlib where
  "small_lib =
     \<lparr> digamma = (\<lambda>x. ln x - 1 / (2 * x)),
       polygamma = (\<lambda>k x. 1 / x + 1 / (2 * x ^ 2)),
       roots_hermitenorm = small_hermitenorm,
       roots_sh_jacobi = small_sh_jacobi,
       beta_dist = \<lparr> cdf = (\<lambda>x a b. max 0 (min 1 x)), mean = (\<lambda>a b. a / (a + b)) \<rparr>,
       norm_dist = \<lparr> cdf = (\<lambda>x loc scale. max 0 (min 1 (1 / 2 + (x - loc) / (4 * scale)))),
                     mean = (\<lambda>loc scale. loc) \<rparr> \<rparr>"


section \<open>Helper lemmas\<close>

lemma and_then_Inr:
  "and_then r f = Inr y \<longleftrightarrow> (\<exists>x. r = Inr x \<and> f x = Inr y)"
  by (cases r) simp_all

lemma fsub_Fin [simp]: "fsub (Fin x) (Fin y) = Fin (x - y)"
  by (simp add: fsub_def)

lemma fsub_Fin_iff: "fsub g (Fin m) = Fin r \<longleftrightarrow> (\<exists>e. g = Fin e \<and> r = e - m)"
  by (cases g) (auto simp: fsub_def)

lemma foldl_fadd_Fin: "foldl fadd (Fin a) (map Fin xs) = Fin (a + sum_list xs)"
  by (induction xs arbitrary: a) (simp_all add: add.assoc)

lemma py_sum_Fin: "py_sum (map Fin xs) = Fin (sum_list xs)"
  by (simp add: py_sum_def foldl_fadd_Fin)

lemma np_mul_Fin:
  assumes "length xs = length ws"
  shows "np_mul (map (\<lambda>x. Fin (f x)) xs) (map Fin ws)
           = Inr (map Fin (map2 (\<lambda>x w. f x * w) xs ws))"
proof -
  have "map2 fmul (map (\<lambda>x. Fin (f x)) xs) (map Fin ws)
          = map Fin (map2 (\<lambda>x w. f x * w) xs ws)"
    using assms by (induction xs ws rule: list_induct2) simp_all
  then show ?thesis using assms by (simp add: np_mul_def)
qed




lemma small_norm_cdf:
  "cdf (norm_dist small_lib) = (\<lambda>x loc scale. max 0 (min 1 (1 / 2 + (x - loc) / (4 * scale))))"
  by (simp add: small_lib_def)

lemma small_norm_mean: "mean (norm_dist small_lib) = (\<lambda>loc scale. loc)"
  by (simp add: small_lib_def)

lemma small_Norm_gq_0_1: "Norm_gq small_lib 2 0 1 = Inr ([- 1, 1], map Fin [1 / 2, 1 / 2])"
  by (simp add: Norm_gq_def small_lib_def small_hermitenorm_def py_int_def)

lemma small_Norm_gq_1_1: "Norm_gq small_lib 2 1 1 = Inr ([0, 2], map Fin [1 / 2, 1 / 2])"
  by (simp add: Norm_gq_def small_lib_def small_hermitenorm_def py_int_def)

lemma small_Norm_risk:
  "Norm_risk small_lib 0 1 1 1 2 = Inr (Fin (5 / 4), Fin (1 / 4))"
  by (simp add: Norm_risk_def risk_def small_Norm_gq_0_1 small_Norm_gq_1_1 np_mul_def
      py_sum_def small_norm_cdf small_norm_mean)



section \<open>Posterior updates\<close>

text \<open>
  C2. For every prior pair \<open>(a_prior, b_prior)\<close> and data summary
  \<open>(successes, trials)\<close>, \<^verbatim>\<open>Beta.posterior\<close> returns exactly
  \<open>(a_prior + successes, b_prior + trials - successes)\<close>; in particular the prior
  \<open>(1, 1)\<close> with the data \<open>(50, 100)\<close> gives \<open>(51, 51)\<close>.
\<close>

theorem Beta_posterior_formula:
  "Beta_posterior [a_prior, b_prior] [successes, trials]
     = Inr (a_prior + successes, b_prior + trials - successes)
   \<and> Beta_posterior [1, 1] [50, 100] = Inr (51, 51)"
  by (simp add: Beta_posterior_def item_def)

text \<open>
  C8. For every Beta prior with both parameters strictly positive and every data summary
  with \<open>trials \<ge> successes \<ge> 0\<close>, both parameters returned by \<^verbatim>\<open>Beta.posterior\<close>
  are strictly positive: the update keeps the pair inside the family's domain.
\<close>

theorem Beta_posterior_positive:
  assumes "0 < a_prior" and "0 < b_prior" and "0 \<le> successes" and "successes \<le> trials"
  shows "\<exists>a b. Beta_posterior [a_prior, b_prior] [successes, trials] = Inr (a, b)
           \<and> 0 < a \<and> 0 < b"
  using assms by (simp add: Beta_posterior_def item_def)

theorem Beta_posterior_positive_witness:
  "(0::real) < 1 \<and> (0::real) \<le> 50 \<and> (50::real) \<le> 100 \<and>
   (\<exists>a b. Beta_posterior [1, 1] [50, 100] = Inr (a, b) \<and> 0 < a \<and> 0 < b)"
  using Beta_posterior_positive [of 1 1 50 100] by simp







text \<open>
  C5, as amended. \<^verbatim>\<open>posterior\<close> checks nothing about its input and has no DomainError.
  \<^verbatim>\<open>Beta.posterior\<close> returns \<open>(a_prior + successes, b_prior + trials - successes)\<close>
  for every prior and data of at least two entries, whatever their values, also when
  \<open>trials < successes\<close>, \<open>successes < 0\<close> or a prior parameter is not positive.
  \<^verbatim>\<open>Norm.posterior\<close> returns a pair for every prior and data of at least three entries,
  whatever their values. The only exception of either is the IndexError of an input that
  is too short.
\<close>

theorem posterior_no_domain_check:
  "Beta_posterior prior data =
     (if length prior < 2 \<or> length data < 2 then Inl IndexError
      else Inr (prior ! 0 + data ! 0, prior ! 1 + data ! 1 - data ! 0))
   \<and> (Norm_posterior nprior ndata = Inl IndexError) = (length nprior < 3 \<or> length ndata < 3)
   \<and> (\<exists>r. Norm_posterior nprior ndata = Inr r) = (\<not> (length nprior < 3 \<or> length ndata < 3))"
  by (auto simp add: Beta_posterior_def Norm_posterior_def item_def Let_def)

text \<open>
  C5 as stated fails: with \<open>trials < successes\<close> the Beta update returns a pair with a
  negative parameter; with a negative scale the Normal update returns the same pair
  as with the scale's absolute value, and with a zero scale it returns \<^verbatim>\<open>(nan, 0.0)\<close>.
\<close>

theorem posterior_domain_counterexample:
  "Beta_posterior [1, 1] [5, 3] = Inr (6, - 1)
   \<and> Norm_posterior [PyFloat 0, PyFloat (- 1), PyFloat 1] [PyFloat 1, PyFloat 1, PyFloat 1]
       = Inr (Fin (1 / 2), Fin (sqrt (1 / 2)))
   \<and> Norm_posterior [PyFloat 0, PyFloat 0, PyFloat 1] [PyFloat 1, PyFloat 1, PyFloat 1]
       = Inr (NaN, Fin 0)"
  by (simp add: Beta_posterior_def Norm_posterior_def item_def Let_def inf_of_def)

section \<open>Moments\<close>



text \<open>
  C6, as amended. For all Normal parameters with \<open>par1 \<noteq> 0\<close> and \<open>par2 > 0\<close>,
  \<^verbatim>\<open>Norm.moments\<close> with \<^verbatim>\<open>log=True\<close> returns \<open>(log par1, (par2 / par1)\<^sup>2)\<close>, where
  the logarithm of a negative \<open>par1\<close> is \<^verbatim>\<open>nan\<close>; it issues its warning
  if and only if \<open>cdf 0 par1 par2\<close> exceeds \<open>EPSILON = 1/10000\<close>, and returns the
  result in that case too.
\<close>

theorem Norm_moments_log:
  assumes "par1 \<noteq> 0" and "0 < par2"
  shows "Norm_moments lib par1 par2 True =
     (if cdf (norm_dist lib) 0 par1 par2 > EPSILON then [negative_warning] else [],
      Inr (if 0 < par1 then Fin (ln par1) else NaN, Fin ((par2 / par1) ^ 2)))"
  using assms by (simp add: Norm_moments_def py_div_def Let_def)

theorem Norm_moments_log_witness:
  "(3::real) \<noteq> 0 \<and> (0::real) < 1
   \<and> Norm_moments small_lib 3 1 True = ([], Inr (Fin (ln 3), Fin (1 / 9)))
   \<and> Norm_moments small_lib 1 1 True = ([negative_warning], Inr (Fin 0, Fin 1))"
  using Norm_moments_log [of 3 1 small_lib] Norm_moments_log [of 1 1 small_lib]
  by (simp add: small_lib_def EPSILON_def power2_eq_square)

text \<open>
  C6 as stated fails at \<open>par1 = 0\<close>, \<open>par2 = 1\<close>: the warning is issued, and then the
  division \<^verbatim>\<open>par2 / par1\<close> of two Python floats raises ZeroDivisionError, so no pair of
  moments is returned.
\<close>

theorem Norm_moments_log_counterexample:
  "Norm_moments small_lib 0 1 True = ([negative_warning], Inl ZeroDivisionError)"
  by (simp add: Norm_moments_def small_lib_def py_div_def EPSILON_def)

section \<open>Quadrature rules\<close>




section \<open>Risk\<close>

text \<open>
  C1. For every family, given by its \<^verbatim>\<open>gq\<close> and its distribution, and all parameters,
  where \<^verbatim>\<open>gq(n, a_par1, a_par2)\<close> returns the nodes and weights
  \<open>(nodes_a, weights_a)\<close> and \<^verbatim>\<open>gq(n, b_par1, b_par2)\<close> returns
  \<open>(nodes_b, weights_b)\<close>, each with as many weights as nodes, \<^verbatim>\<open>risk\<close> returns the
  pair \<open>(gq_est - mean_A, gq_est - mean_B)\<close>, where \<open>gq_est\<close> is the sum of
  \<open>nodes_a * CDF_B(nodes_a) * weights_a\<close> plus the sum of
  \<open>nodes_b * CDF_A(nodes_b) * weights_b\<close>, and \<open>mean_A\<close>, \<open>mean_B\<close> are the means
  of the family at the parameters of each arm.
\<close>

theorem risk_formula:
  assumes "gq n a_par1 a_par2 = Inr (nodes_a, map Fin weights_a)"
    and "gq n b_par1 b_par2 = Inr (nodes_b, map Fin weights_b)"
    and "length nodes_a = length weights_a"
    and "length nodes_b = length weights_b"
  shows "risk gq d a_par1 a_par2 b_par1 b_par2 n =
     (let gq_est = sum_list (map2 (\<lambda>x w. x * cdf d x b_par1 b_par2 * w) nodes_a weights_a)
                 + sum_list (map2 (\<lambda>x w. x * cdf d x a_par1 a_par2 * w) nodes_b weights_b)
      in Inr (Fin (gq_est - mean d a_par1 a_par2), Fin (gq_est - mean d b_par1 b_par2)))"
proof -
  have ta: "np_mul (map (\<lambda>x. Fin (x * cdf d x b_par1 b_par2)) nodes_a) (map Fin weights_a)
      = Inr (map Fin (map2 (\<lambda>x w. x * cdf d x b_par1 b_par2 * w) nodes_a weights_a))"
    using assms(3) by (rule np_mul_Fin)
  have tb: "np_mul (map (\<lambda>x. Fin (x * cdf d x a_par1 a_par2)) nodes_b) (map Fin weights_b)
      = Inr (map Fin (map2 (\<lambda>x w. x * cdf d x a_par1 a_par2 * w) nodes_b weights_b))"
    using assms(4) by (rule np_mul_Fin)
  show ?thesis
    by (simp add: risk_def assms(1,2) ta tb py_sum_Fin Let_def del: map_map)
qed

theorem risk_formula_witness:
  "Norm_gq small_lib 2 0 1 = Inr ([- 1, 1], map Fin [1 / 2, 1 / 2])
   \<and> length [- 1, 1 :: real] = length [1 / 2, 1 / 2 :: real]
   \<and> Norm_risk small_lib 0 1 0 1 2 = Inr (Fin (1 / 2), Fin (1 / 2))"
proof -
  have l: "length [- 1, 1 :: real] = length [1 / 2, 1 / 2 :: real]" by simp
  show ?thesis
    using risk_formula [where gq = "Norm_gq small_lib" and d = "norm_dist small_lib",
        OF small_Norm_gq_0_1 small_Norm_gq_0_1 l l] small_Norm_gq_0_1
    by (simp add: Norm_risk_def Let_def small_norm_cdf small_norm_mean)
qed

text \<open>
  C10. For every family and all inputs on which \<^verbatim>\<open>risk\<close> returns a pair of numbers
  \<open>(risk_a, risk_b)\<close>, the two components differ by the difference of the two arms'
  means, \<open>risk_a - risk_b = mean_B - mean_A\<close>, since both subtract from the same
  quadrature estimate; in particular they are equal when both arms have the same
  parameters.
\<close>

theorem risk_difference:
  assumes "risk gq d a_par1 a_par2 b_par1 b_par2 n = Inr (Fin risk_a, Fin risk_b)"
  shows "risk_a - risk_b = mean d b_par1 b_par2 - mean d a_par1 a_par2
     \<and> (a_par1 = b_par1 \<and> a_par2 = b_par2 \<longrightarrow> risk_a = risk_b)"
proof -
  from assms obtain g where "fsub g (Fin (mean d a_par1 a_par2)) = Fin risk_a"
    and "fsub g (Fin (mean d b_par1 b_par2)) = Fin risk_b"
    by (auto simp: risk_def and_then_Inr Let_def)
  then obtain e where "risk_a = e - mean d a_par1 a_par2"
    and "risk_b = e - mean d b_par1 b_par2"
    by (auto simp: fsub_Fin_iff)
  then show ?thesis by auto
qed

theorem risk_difference_witness:
  "Norm_risk small_lib 0 1 1 1 2 = Inr (Fin (5 / 4), Fin (1 / 4))
   \<and> (5 / 4 :: real) - 1 / 4
       = mean (norm_dist small_lib) 1 1 - mean (norm_dist small_lib) 0 1"
  using risk_difference [of "Norm_gq small_lib" "norm_dist small_lib" 0 1 1 1 2 "5 / 4" "1 / 4"]
    small_Norm_risk
  by (simp add: Norm_risk_def small_lib_def)

end
